theory Spec2Isabelle
  imports Complex_Main "HOL-Library.Word"
begin

unbundle bit_operations_syntax

section \<open>Python values shared by both modules\<close>

text \<open>
  Exceptions are values. Only the exception classes that the modelled functions can raise
  are listed; \<open>NameError\<close> carries the name that could not be resolved.
\<close>

datatype py_error = ValueError | NameError string | AttributeError | AssertionError | TypeError

text \<open>Sequencing of two steps, the first of which may raise.\<close>

definition bind_result :: "py_error + 'a \<Rightarrow> ('a \<Rightarrow> py_error + 'b) \<Rightarrow> py_error + 'b" where
  "bind_result r f = (case r of Inl e \<Rightarrow> Inl e | Inr v \<Rightarrow> f v)"

section \<open>Pololu Maestro servo platform (mpf/platforms/pololu_maestro.py)\<close>

text \<open>
  The module is Python 3 code (it calls \<open>super()\<close> without arguments), so \<open>chr\<close> builds
  a \<open>str\<close>, a sequence of code points; the command strings built by the driver are
  modelled as lists of code points (Python's unbounded \<open>int\<close> is \<open>int\<close>).
  \<open>chr(i)\<close> raises \<open>ValueError\<close> unless \<open>i\<close> is in \<open>range(0x110000)\<close>.
\<close>

type_synonym py_str = "int list"

definition chr_py :: "int \<Rightarrow> py_error + py_str" where
  "chr_py i = (if 0 \<le> i \<and> i < 0x110000 then Inr [i] else Inl ValueError)"

text \<open>
  The validated \<open>pololu_maestro\<close> configuration section: the two entries the driver reads.
\<close>

record maestro_config =
  servo_min :: int
  servo_max :: int

text \<open>
  What a caller can hand to PySerial's \<open>Serial.write\<close>: a \<open>str\<close> (code points) or a
  \<open>bytes\<close> object (values 0..255). An open port is represented by the byte strings it
  has written so far, oldest first. \<open>Serial.write\<close> writes a \<open>bytes\<close> object; handed a
  \<open>str\<close> it raises \<open>TypeError\<close> (unicode strings are not supported) and writes nothing.
\<close>

datatype py_data = Py_str py_str | Py_bytes "int list"

definition pyserial_write :: "int list list \<Rightarrow> py_data \<Rightarrow> py_error + int list list" where
  "pyserial_write written data =
     (case data of
        Py_bytes bs \<Rightarrow> Inr (written @ [bs])
      | Py_str s \<Rightarrow> Inl TypeError)"

text \<open>The platform object. \<open>serial\<close> is \<open>None\<close> until \<open>initialize\<close> has opened the port.\<close>

record HardwarePlatform =
  config :: maestro_config
  cmd_header :: py_str
  serial :: "int list list option"

text \<open>\<open>__init__\<close>: \<open>self.cmd_header = chr(0xaa) + chr(0xc)\<close>, \<open>self.serial = None\<close>.\<close>

definition HardwarePlatform_init :: "maestro_config \<Rightarrow> py_error + HardwarePlatform" where
  "HardwarePlatform_init cfg =
     bind_result (chr_py 0xaa) (\<lambda>h1.
     bind_result (chr_py 0xc) (\<lambda>h2.
       Inr \<lparr>config = cfg, cmd_header = h1 @ h2, serial = None\<rparr>))"

text \<open>\<open>initialize\<close>: \<open>self.serial = serial.Serial(port)\<close>, a freshly opened port.\<close>

definition initialize :: "HardwarePlatform \<Rightarrow> HardwarePlatform" where
  "initialize p = p\<lparr>serial := Some []\<rparr>"

text \<open>
  \<open>self.serial.write(cmd)\<close> with the \<open>str\<close> that the driver has built: an attribute
  access on \<open>None\<close> raises \<open>AttributeError\<close>; otherwise the string goes to the port's
  \<open>write\<close>.
\<close>

definition serial_write :: "HardwarePlatform \<Rightarrow> py_str \<Rightarrow> py_error + HardwarePlatform" where
  "serial_write p cmd =
     (case serial p of
        None \<Rightarrow> Inl AttributeError
      | Some written \<Rightarrow>
          bind_result (pyserial_write written (Py_str cmd))
            (\<lambda>written'. Inr (p\<lparr>serial := Some written'\<rparr>)))"

text \<open>
  Lines 57--65 of \<open>servo_go_to_position\<close>: the value of the local \<open>position\<close> after the
  two conditional assignments, in the order the source performs them.
\<close>

definition clamped_position :: "maestro_config \<Rightarrow> int \<Rightarrow> int" where
  "clamped_position cfg position =
     (let position = (if servo_min cfg > 0 \<and> position < servo_min cfg
                      then servo_min cfg else position);
          position = (if servo_max cfg > 0 \<and> position > servo_max cfg
                      then servo_max cfg else position)
      in position)"

text \<open>
  \<open>servo_go_to_position(number, position)\<close>. Python's \<open>&\<close> and \<open>>>\<close> on unbounded
  integers are two's-complement \<open>AND\<close> and the floor shift \<open>drop_bit\<close> on \<open>int\<close>.
\<close>

definition servo_go_to_position ::
  "HardwarePlatform \<Rightarrow> int \<Rightarrow> int \<Rightarrow> py_error + HardwarePlatform" where
  "servo_go_to_position p number position =
     (let position = clamped_position (config p) position;
          lsb = position AND 0x7f;
          msb = (drop_bit 7 position) AND 0x7f
      in bind_result (chr_py 0x04) (\<lambda>c_op.
         bind_result (chr_py number) (\<lambda>c_number.
         bind_result (chr_py lsb) (\<lambda>c_lsb.
         bind_result (chr_py msb) (\<lambda>c_msb.
           serial_write p (cmd_header p @ c_op @ c_number @ c_lsb @ c_msb))))))"

text \<open>
  The string bound to \<open>cmd\<close> on line 71, which \<open>servo_go_to_position\<close> hands to
  \<open>serial.write\<close>: the same steps up to the call.
\<close>

definition servo_go_to_position_cmd :: "HardwarePlatform \<Rightarrow> int \<Rightarrow> int \<Rightarrow> py_error + py_str" where
  "servo_go_to_position_cmd p number position =
     (let position = clamped_position (config p) position;
          lsb = position AND 0x7f;
          msb = (drop_bit 7 position) AND 0x7f
      in bind_result (chr_py 0x04) (\<lambda>c_op.
         bind_result (chr_py number) (\<lambda>c_number.
         bind_result (chr_py lsb) (\<lambda>c_lsb.
         bind_result (chr_py msb) (\<lambda>c_msb.
           Inr (cmd_header p @ c_op @ c_number @ c_lsb @ c_msb))))))"

text \<open>\<open>set_speed(number, speed)\<close>: no clamping, opcode \<open>0x07\<close>.\<close>

definition set_speed :: "HardwarePlatform \<Rightarrow> int \<Rightarrow> int \<Rightarrow> py_error + HardwarePlatform" where
  "set_speed p number speed =
     (let lsb = speed AND 0x7f;
          msb = (drop_bit 7 speed) AND 0x7f
      in bind_result (chr_py 0x07) (\<lambda>c_op.
         bind_result (chr_py number) (\<lambda>c_number.
         bind_result (chr_py lsb) (\<lambda>c_lsb.
         bind_result (chr_py msb) (\<lambda>c_msb.
           serial_write p (cmd_header p @ c_op @ c_number @ c_lsb @ c_msb))))))"

text \<open>The string bound to \<open>cmd\<close> on line 94, which \<open>set_speed\<close> hands to \<open>serial.write\<close>.\<close>

definition set_speed_cmd :: "HardwarePlatform \<Rightarrow> int \<Rightarrow> int \<Rightarrow> py_error + py_str" where
  "set_speed_cmd p number speed =
     (let lsb = speed AND 0x7f;
          msb = (drop_bit 7 speed) AND 0x7f
      in bind_result (chr_py 0x07) (\<lambda>c_op.
         bind_result (chr_py number) (\<lambda>c_number.
         bind_result (chr_py lsb) (\<lambda>c_lsb.
         bind_result (chr_py msb) (\<lambda>c_msb.
           Inr (cmd_header p @ c_op @ c_number @ c_lsb @ c_msb))))))"

text \<open>
  Resolution of a bare name inside a function body: the local variables first. The module
  binds only \<open>logging\<close>, \<open>ServoPlatform\<close>, \<open>serial\<close> and \<open>HardwarePlatform\<close> at top level,
  none of which is an integer variable, so a name that is not a local is unbound.
\<close>

definition lookup_name :: "(string \<times> int) list \<Rightarrow> string \<Rightarrow> py_error + int" where
  "lookup_name scope n = (case map_of scope n of None \<Rightarrow> Inl (NameError n) | Some v \<Rightarrow> Inr v)"

text \<open>
  \<open>set_acceleration(number, accel)\<close>. The body builds the command from \<open>chr(chan)\<close>; the
  integer locals in scope at that point are \<open>number\<close>, \<open>accel\<close>, \<open>lsb\<close> and \<open>msb\<close>.
\<close>

definition set_acceleration ::
  "HardwarePlatform \<Rightarrow> int \<Rightarrow> int \<Rightarrow> py_error + HardwarePlatform" where
  "set_acceleration p number accel =
     (let lsb = accel AND 0x7f;
          msb = (drop_bit 7 accel) AND 0x7f;
          scope = [(''number'', number), (''accel'', accel), (''lsb'', lsb), (''msb'', msb)]
      in bind_result (chr_py 0x09) (\<lambda>c_op.
         bind_result (lookup_name scope ''chan'') (\<lambda>chan.
         bind_result (chr_py chan) (\<lambda>c_number.
         bind_result (chr_py lsb) (\<lambda>c_lsb.
         bind_result (chr_py msb) (\<lambda>c_msb.
           serial_write p (cmd_header p @ c_op @ c_number @ c_lsb @ c_msb)))))))"

text \<open>
  Platforms as \<open>__init__\<close> and \<open>initialize\<close> leave them, one with the limits used in the
  specification's examples and one with no limit configured; they are the concrete inputs
  of the evaluations below.
\<close>

abbreviation maestro_3000_9000 :: HardwarePlatform where
  "maestro_3000_9000 \<equiv>
     \<lparr>config = \<lparr>servo_min = 3000, servo_max = 9000\<rparr>, cmd_header = [0xaa, 0xc],
      serial = Some []\<rparr>"

abbreviation maestro_unclamped :: HardwarePlatform where
  "maestro_unclamped \<equiv>
     \<lparr>config = \<lparr>servo_min = 0, servo_max = 0\<rparr>, cmd_header = [0xaa, 0xc],
      serial = Some []\<rparr>"

section \<open>Switch device (mpf/devices/switch.py)\<close>

subsection \<open>Strings\<close>

text \<open>
  Names, tags and event strings are modelled as \<open>string\<close>. \<open>s.split(sep)\<close> with a
  one-character separator cuts at every occurrence of it; \<open>s.replace(old, new)\<close> with a
  one-character \<open>old\<close> replaces every occurrence; \<open>s.upper()\<close> is modelled on the ASCII
  letters, which is all the comparison with \<open>'NC'\<close> can observe for an ASCII setting.
\<close>

fun str_split :: "string \<Rightarrow> char \<Rightarrow> string list" where
  "str_split [] sep = [[]]"
| "str_split (x # xs) sep =
     (if x = sep then [] # str_split xs sep
      else (case str_split xs sep of
              [] \<Rightarrow> [[x]]
            | w # ws \<Rightarrow> (x # w) # ws))"

definition str_replace :: "string \<Rightarrow> char \<Rightarrow> string \<Rightarrow> string" where
  "str_replace s old new = concat (map (\<lambda>x. if x = old then new else [x]) s)"

definition upper_char :: "char \<Rightarrow> char" where
  "upper_char c =
     (case map_of (zip ''abcdefghijklmnopqrstuvwxyz'' ''ABCDEFGHIJKLMNOPQRSTUVWXYZ'') c of
        None \<Rightarrow> c
      | Some u \<Rightarrow> u)"

definition str_upper :: "string \<Rightarrow> string" where
  "str_upper s = map upper_char s"

subsection \<open>Configuration and collaborators\<close>

text \<open>The entries of a switch's validated configuration that \<open>Switch\<close> reads.\<close>

record switch_section =
  cfg_type :: string
  cfg_platform :: "string option"
  cfg_number :: string
  cfg_ignore_window_ms :: int
  cfg_debounce :: string
  cfg_platform_settings :: string
  cfg_events_when_activated :: "string list"
  cfg_events_when_deactivated :: "string list"

text \<open>The entries of \<open>machine.config['mpf']\<close> that \<open>Switch\<close> reads.\<close>

record mpf_section =
  auto_create_switch_events :: bool
  switch_event_active :: string
  switch_event_inactive :: string
  switch_tag_event :: string

text \<open>\<open>SwitchConfig\<close> of \<open>mpf.core.platform\<close>, and the \<open>number\<close> of a platform's switch handle.\<close>

record SwitchConfig =
  sc_invert :: int
  sc_debounce :: string

record 'n SwitchPlatformInterface =
  hw_number :: 'n

text \<open>
  Functions of the machine that are called but not defined in this module are parameters:
  the platform lookup, the platform's \<open>configure_switch\<close>, and \<open>Util.string_to_ms\<close> and
  \<open>Util.string_to_lowercase_list\<close>.
\<close>

record ('p, 'n) machine_env =
  mpf :: mpf_section
  get_platform_sections :: "string \<Rightarrow> string option \<Rightarrow> 'p"
  configure_switch :: "'p \<Rightarrow> string \<Rightarrow> SwitchConfig \<Rightarrow> string \<Rightarrow> 'n SwitchPlatformInterface"
  string_to_ms :: "string \<Rightarrow> py_error + int"
  string_to_lowercase_list :: "string list \<Rightarrow> string list"

text \<open>
  The switch controller is a collaborator outside this module. Its state is represented by
  the calls it has received, in order: the names passed to \<open>register_switch\<close> and the
  arguments of each \<open>add_switch_handler\<close> call, where the callback
  \<open>partial(self.machine.events.post, event=event)\<close> is represented by the event name.
\<close>

record switch_handler =
  h_switch_name :: string
  h_state :: int
  h_event :: string
  h_ms :: int

record switch_controller =
  registered_switches :: "string list"
  switch_handlers :: "switch_handler list"

definition register_switch :: "switch_controller \<Rightarrow> string \<Rightarrow> switch_controller" where
  "register_switch ctl n = ctl\<lparr>registered_switches := registered_switches ctl @ [n]\<rparr>"

definition add_switch_handler ::
  "switch_controller \<Rightarrow> string \<Rightarrow> int \<Rightarrow> string \<Rightarrow> int \<Rightarrow> switch_controller" where
  "add_switch_handler ctl switch_name st event ms =
     ctl\<lparr>switch_handlers := switch_handlers ctl @
       [\<lparr>h_switch_name = switch_name, h_state = st, h_event = event, h_ms = ms\<rparr>]\<rparr>"

text \<open>The events posted by the handlers registered for a transition into state \<open>st\<close>.\<close>

definition posted_events :: "switch_controller \<Rightarrow> int \<Rightarrow> string list" where
  "posted_events ctl st = map h_event (filter (\<lambda>h. h_state h = st) (switch_handlers ctl))"

subsection \<open>The Switch object\<close>

text \<open>The attributes that the device base classes own: set by \<open>super().__init__\<close>.\<close>

record device =
  name :: string
  tags :: "string list"
  sw_config :: switch_section

record ('p, 'n) Switch = device +
  hw_switch :: "'n SwitchPlatformInterface option"
  platform :: "'p option"
  state :: int
  hw_state :: int
  invert :: int
  recycle_secs :: real
  recycle_clear_time :: int
  recycle_jitter_count :: int

text \<open>
  \<open>__init__(machine, name)\<close>: returns the new object and the switch controller after the
  \<open>register_switch(name)\<close> call. The base-class constructor is a parameter.
\<close>

definition Switch_init ::
  "(string \<Rightarrow> device) \<Rightarrow> string \<Rightarrow> switch_controller \<Rightarrow> ('p, 'n) Switch \<times> switch_controller" where
  "Switch_init super_init nm ctl =
     (let base = super_init nm;
          self = \<lparr>name = name base, tags = tags base, sw_config = sw_config base,
                  hw_switch = None, platform = None,
                  state = 0, hw_state = 0, invert = 0,
                  recycle_secs = 0, recycle_clear_time = 0, recycle_jitter_count = 0\<rparr>
      in (self, register_switch ctl nm))"

subsection \<open>Duplicate switch numbers\<close>

text \<open>
  The event bus is represented by the \<open>add_handler\<close> calls it has received;
  \<open>device_class_init\<close> registers the duplicate check for \<open>init_phase_4\<close>.
\<close>

datatype event_callback = Check_duplicate_switch_numbers

definition device_class_init ::
  "(string \<times> event_callback) list \<Rightarrow> (string \<times> event_callback) list" where
  "device_class_init events = events @ [(''init_phase_4'', Check_duplicate_switch_numbers)]"

text \<open>
  The loop of \<open>_check_duplicate_switch_numbers\<close> over \<open>machine.switches\<close>, with the set of
  keys seen so far. Reading \<open>.number\<close> of a \<open>hw_switch\<close> that is still \<open>None\<close> raises
  \<open>AttributeError\<close>.
\<close>

fun check_duplicates_loop ::
  "('p option \<times> 'n) set \<Rightarrow> ('p, 'n) Switch list \<Rightarrow> py_error + unit" where
  "check_duplicates_loop check_set [] = Inr ()"
| "check_duplicates_loop check_set (switch # rest) =
     (case hw_switch switch of
        None \<Rightarrow> Inl AttributeError
      | Some hw \<Rightarrow>
          (let key = (platform switch, hw_number hw)
           in if key \<in> check_set then Inl AssertionError
              else check_duplicates_loop (insert key check_set) rest))"

text \<open>
  The pair that the check compares, for stating its result: the switch's platform and the
  number of its hardware handle (\<open>None\<close> while the switch has no handle).
\<close>

definition switch_key :: "('p, 'n) Switch \<Rightarrow> 'p option \<times> 'n option" where
  "switch_key switch = (platform switch, map_option hw_number (hw_switch switch))"

definition Switch_check_duplicate_switch_numbers :: "('p, 'n) Switch list \<Rightarrow> py_error + unit" where
  "Switch_check_duplicate_switch_numbers switches = check_duplicates_loop {} switches"

text \<open>
  Modelled from the spec: the machine controller's boot sequence and the event bus's
  \<open>post\<close> are not under src/. Section 7 of the specification makes the duplicate check a
  fixed startup checkpoint that runs before normal operation begins; posting the
  checkpoint's event calls the handlers registered for it, in order, and normal operation
  (in which switches accept input) is reached only if none of them raised.
\<close>

fun post_event ::
  "(string \<times> event_callback) list \<Rightarrow> string \<Rightarrow> ('p, 'n) Switch list \<Rightarrow> py_error + unit" where
  "post_event [] event switches = Inr ()"
| "post_event ((registered, Check_duplicate_switch_numbers) # handlers) event switches =
     (if registered = event
      then bind_result (Switch_check_duplicate_switch_numbers switches)
             (\<lambda>_. post_event handlers event switches)
      else post_event handlers event switches)"

text \<open>
  Modelled from the spec: startup posts the checkpoint and goes on to normal operation, the
  phase in which switches accept input, only when the checkpoint's handlers have returned.
\<close>

datatype machine_phase = Normal_operation

definition machine_startup ::
  "(string \<times> event_callback) list \<Rightarrow> ('p, 'n) Switch list \<Rightarrow> py_error + machine_phase" where
  "machine_startup events switches =
     bind_result (post_event events ''init_phase_4'' switches) (\<lambda>_. Inr Normal_operation)"

subsection \<open>Activation events\<close>

text \<open>
  \<open>_create_activation_event(event_str, state)\<close>. Unpacking the result of \<open>split\<close> into two
  names raises \<open>ValueError\<close> unless it has exactly two elements.
\<close>

definition Switch_create_activation_event ::
  "('p, 'n) machine_env \<Rightarrow> ('p, 'n) Switch \<Rightarrow> string \<Rightarrow> int \<Rightarrow> switch_controller
     \<Rightarrow> py_error + switch_controller" where
  "Switch_create_activation_event env self event_str st ctl =
     (if CHR ''|'' \<in> set event_str
      then (case str_split event_str CHR ''|'' of
              [event, ev_time] \<Rightarrow>
                bind_result (string_to_ms env ev_time) (\<lambda>ms.
                  Inr (add_switch_handler ctl (name self) st event ms))
            | _ \<Rightarrow> Inl ValueError)
      else Inr (add_switch_handler ctl (name self) st event_str 0))"

text \<open>
  A run of consecutive \<open>_create_activation_event\<close> calls: the first one that raises ends
  the run, and the handlers registered before it stay registered.
\<close>

fun create_activation_events ::
  "('p, 'n) machine_env \<Rightarrow> ('p, 'n) Switch \<Rightarrow> (string \<times> int) list \<Rightarrow> switch_controller
     \<Rightarrow> switch_controller \<times> py_error option" where
  "create_activation_events env self [] ctl = (ctl, None)"
| "create_activation_events env self ((event_str, st) # rest) ctl =
     (case Switch_create_activation_event env self event_str st ctl of
        Inl e \<Rightarrow> (ctl, Some e)
      | Inr ctl' \<Rightarrow> create_activation_events env self rest ctl')"

text \<open>
  \<open>_initialize\<close>: returns the object, the switch controller and the exception raised, if
  any. The attribute assignments come first and none of them is undone by a later
  exception. The four blocks of \<open>_create_activation_event\<close> calls are listed in the order
  in which the source makes them and then run by \<open>create_activation_events\<close>. The float
  division by \<open>1000.0\<close> is exact division here.
\<close>

definition Switch_initialize ::
  "('p, 'n) machine_env \<Rightarrow> ('p, 'n) Switch \<Rightarrow> switch_controller
     \<Rightarrow> ('p, 'n) Switch \<times> switch_controller \<times> py_error option" where
  "Switch_initialize env self ctl =
     (let cfg = sw_config self;
          the_platform = get_platform_sections env ''switches'' (cfg_platform cfg);
          self = self\<lparr>platform := Some the_platform\<rparr>;
          self = (if str_upper (cfg_type cfg) = ''NC'' then self\<lparr>invert := 1\<rparr> else self);
          self = self\<lparr>recycle_secs := real_of_int (cfg_ignore_window_ms cfg) / 1000\<rparr>;
          config = \<lparr>sc_invert = invert self, sc_debounce = cfg_debounce cfg\<rparr>;
          self = self\<lparr>hw_switch := Some (configure_switch env the_platform (cfg_number cfg)
                                          config (cfg_platform_settings cfg))\<rparr>;
          switch_events =
            (if auto_create_switch_events (mpf env)
             then [(str_replace (switch_event_active (mpf env)) CHR ''%'' (name self), 1),
                   (str_replace (switch_event_inactive (mpf env)) CHR ''%'' (name self), 0)]
             else []);
          tag_events =
            concat (map (\<lambda>tag.
              [(str_replace (switch_tag_event (mpf env)) CHR ''%'' tag, 1),
               (str_replace (switch_tag_event (mpf env)) CHR ''%'' tag @ ''_active'', 1),
               (str_replace (switch_tag_event (mpf env)) CHR ''%'' tag @ ''_inactive'', 0)])
              (tags self));
          activated =
            map (\<lambda>event. (event, 1))
              (string_to_lowercase_list env (cfg_events_when_activated cfg));
          deactivated =
            map (\<lambda>event. (event, 0))
              (string_to_lowercase_list env (cfg_events_when_deactivated cfg));
          calls = switch_events @ tag_events @ activated @ deactivated
      in (self, create_activation_events env self calls ctl))"

text \<open>
  Modelled from the spec: the switch controller's dispatch is not under src/. Section 4.2:
  on an accepted transition to state \<open>S\<close> at time \<open>T\<close> a registration with that trigger
  state fires synchronously if its settle time is 0; if it is positive, a check is
  scheduled for \<open>T + settle_ms\<close> and the callback fires then only if the switch is still
  in state \<open>S\<close>. The section says nothing about a negative settle time.
\<close>

datatype dispatch = Not_triggered | Fires_synchronously | Settle_check_at int | Not_specified

definition dispatch_handler :: "switch_handler \<Rightarrow> int \<Rightarrow> int \<Rightarrow> dispatch" where
  "dispatch_handler h S T =
     (if h_state h \<noteq> S then Not_triggered
      else if h_ms h = 0 then Fires_synchronously
      else if 0 < h_ms h then Settle_check_at (T + h_ms h)
      else Not_specified)"

text \<open>
  Modelled from the spec: \<open>Util.string_to_ms\<close> is not under src/. The specification's
  example \<open>"event_name|250"\<close> gives a plain decimal suffix its value in milliseconds; this
  instance of the parameter reads decimal digits and rejects everything else.
\<close>

definition digit_value :: "char \<Rightarrow> int option" where
  "digit_value c = map_of (zip ''0123456789'' [0, 1, 2, 3, 4, 5, 6, 7, 8, 9]) c"

fun decimal_value :: "int \<Rightarrow> string \<Rightarrow> int option" where
  "decimal_value acc [] = Some acc"
| "decimal_value acc (c # cs) =
     (case digit_value c of None \<Rightarrow> None | Some d \<Rightarrow> decimal_value (10 * acc + d) cs)"

definition decimal_string_to_ms :: "string \<Rightarrow> py_error + int" where
  "decimal_string_to_ms s =
     (if s = [] then Inl ValueError
      else (case decimal_value 0 s of None \<Rightarrow> Inl ValueError | Some v \<Rightarrow> Inr v))"

text \<open>
  Concrete inputs for the evaluations below: a machine with the framework's usual event
  templates, whose platform hands back the configured number as the hardware number, a
  switch section of a given type and number, a base-class constructor, a switch controller
  that has received no call yet, and a switch of type \<open>NO\<close> as \<open>_initialize\<close> leaves it
  on a named platform.
\<close>

abbreviation example_env :: "(string, string) machine_env" where
  "example_env \<equiv>
     \<lparr>mpf = \<lparr>auto_create_switch_events = True, switch_event_active = ''%_active'',
             switch_event_inactive = ''%_inactive'', switch_tag_event = ''sw_%''\<rparr>,
      get_platform_sections =
        (\<lambda>section overwrite. case overwrite of None \<Rightarrow> ''virtual'' | Some pl \<Rightarrow> pl),
      configure_switch = (\<lambda>pl number config settings. \<lparr>hw_number = number\<rparr>),
      string_to_ms = decimal_string_to_ms,
      string_to_lowercase_list = (\<lambda>events. events)\<rparr>"

abbreviation example_section :: "string \<Rightarrow> string \<Rightarrow> switch_section" where
  "example_section ty number \<equiv>
     \<lparr>cfg_type = ty, cfg_platform = None, cfg_number = number, cfg_ignore_window_ms = 0,
      cfg_debounce = ''auto'', cfg_platform_settings = [],
      cfg_events_when_activated = [], cfg_events_when_deactivated = []\<rparr>"

abbreviation example_super_init :: "string \<Rightarrow> device" where
  "example_super_init \<equiv>
     (\<lambda>nm. \<lparr>name = nm, tags = [], sw_config = example_section ''NO'' ''0''\<rparr>)"

abbreviation example_switch :: "string \<Rightarrow> string \<Rightarrow> string \<Rightarrow> (string, string) Switch" where
  "example_switch nm pl number \<equiv>
     \<lparr>name = nm, tags = [],
      sw_config =
        \<lparr>cfg_type = ''NO'', cfg_platform = Some pl, cfg_number = number,
         cfg_ignore_window_ms = 0, cfg_debounce = ''auto'', cfg_platform_settings = [],
         cfg_events_when_activated = [], cfg_events_when_deactivated = []\<rparr>,
      hw_switch = Some \<lparr>hw_number = number\<rparr>, platform = Some pl,
      state = 0, hw_state = 0, invert = 0,
      recycle_secs = 0, recycle_clear_time = 0, recycle_jitter_count = 0\<rparr>"

abbreviation no_calls :: switch_controller where
  "no_calls \<equiv> \<lparr>registered_switches = [], switch_handlers = []\<rparr>"

section \<open>Properties of the servo platform\<close>

subsection \<open>Seven-bit fields\<close>

lemma and_7f_take_bit: "(x::int) AND 0x7f = take_bit 7 x"
proof -
  have "(0x7f::int) = mask 7" by (simp add: mask_eq_exp_minus_1)
  then show ?thesis by (simp only: take_bit_eq_mask)
qed

lemma low7_range: "0 \<le> (x::int) AND 0x7f \<and> x AND 0x7f \<le> 127"
  unfolding and_7f_take_bit using take_bit_int_less_exp[of 7 x] by simp

lemma chr_py_low7: "chr_py ((x::int) AND 0x7f) = Inr [x AND 0x7f]"
  using low7_range[of x] by (simp add: chr_py_def)

lemma low7_mod: "((v::int) mod 16384) AND 0x7f = v AND 0x7f"
proof -
  have "(v mod 16384) = take_bit 14 v" by (simp add: take_bit_eq_mod)
  then show ?thesis unfolding and_7f_take_bit by simp
qed

lemma high7_mod: "drop_bit 7 ((v::int) mod 16384) AND 0x7f = drop_bit 7 v AND 0x7f"
proof -
  have "(v mod 16384) = take_bit 14 v" by (simp add: take_bit_eq_mod)
  then show ?thesis unfolding and_7f_take_bit by (simp add: drop_bit_take_bit)
qed

lemma bytes_of_6000: "(6000::int) AND 0x7f = 112 \<and> drop_bit 7 (6000::int) AND 0x7f = 46"
  by (simp add: and_7f_take_bit take_bit_eq_mod drop_bit_eq_div)

lemma chr_py_channel: "0 \<le> number \<Longrightarrow> number \<le> 255 \<Longrightarrow> chr_py number = Inr [number]"
  by (simp add: chr_py_def)

subsection \<open>Construction\<close>

lemma HardwarePlatform_init_header:
  "HardwarePlatform_init cfg = Inr \<lparr>config = cfg, cmd_header = [0xaa, 0xc], serial = None\<rparr>"
  by (simp add: HardwarePlatform_init_def chr_py_def bind_result_def)

lemma maestro_3000_9000_initialized:
  "map_sum id initialize (HardwarePlatform_init \<lparr>servo_min = 3000, servo_max = 9000\<rparr>)
     = Inr maestro_3000_9000"
  by (simp add: HardwarePlatform_init_header initialize_def)

lemma maestro_unclamped_initialized:
  "map_sum id initialize (HardwarePlatform_init \<lparr>servo_min = 0, servo_max = 0\<rparr>)
     = Inr maestro_unclamped"
  by (simp add: HardwarePlatform_init_header initialize_def)

subsection \<open>The command strings and the write\<close>

lemma servo_go_to_position_cmd_frame:
  assumes "cmd_header p = [0xaa, 0xc]" and "0 \<le> number" and "number \<le> 255"
  shows "servo_go_to_position_cmd p number position =
    Inr [0xaa, 0xc, 0x04, number,
         clamped_position (config p) position AND 0x7f,
         drop_bit 7 (clamped_position (config p) position) AND 0x7f]"
proof -
  have op: "chr_py 0x04 = Inr [0x04]" by (simp add: chr_py_def)
  show ?thesis
    unfolding servo_go_to_position_cmd_def Let_def
    by (simp add: op chr_py_channel[OF assms(2,3)] chr_py_low7 bind_result_def assms(1))
qed

lemma set_speed_cmd_frame:
  assumes "cmd_header p = [0xaa, 0xc]" and "0 \<le> number" and "number \<le> 255"
  shows "set_speed_cmd p number speed =
    Inr [0xaa, 0xc, 0x07, number, speed AND 0x7f, drop_bit 7 speed AND 0x7f]"
proof -
  have op: "chr_py 0x07 = Inr [0x07]" by (simp add: chr_py_def)
  show ?thesis
    unfolding set_speed_cmd_def Let_def
    by (simp add: op chr_py_channel[OF assms(2,3)] chr_py_low7 bind_result_def assms(1))
qed

lemma servo_go_to_position_hands_cmd:
  "servo_go_to_position p number position =
     bind_result (servo_go_to_position_cmd p number position) (serial_write p)"
  by (simp add: servo_go_to_position_def servo_go_to_position_cmd_def Let_def bind_result_def
      split: sum.splits)

lemma set_speed_hands_cmd:
  "set_speed p number speed = bind_result (set_speed_cmd p number speed) (serial_write p)"
  by (simp add: set_speed_def set_speed_cmd_def Let_def bind_result_def split: sum.splits)

lemma serial_write_never_returns: "serial_write p cmd \<noteq> Inr p'"
  by (simp add: serial_write_def pyserial_write_def bind_result_def split: option.splits)

lemma serial_write_open_port: "serial p = Some written \<Longrightarrow> serial_write p cmd = Inl TypeError"
  by (simp add: serial_write_def pyserial_write_def bind_result_def)

lemma servo_go_to_position_never_returns: "servo_go_to_position p number position \<noteq> Inr p'"
  by (simp add: servo_go_to_position_hands_cmd bind_result_def serial_write_never_returns
      split: sum.splits)

lemma set_speed_never_returns: "set_speed p number speed \<noteq> Inr p'"
  by (simp add: set_speed_hands_cmd bind_result_def serial_write_never_returns
      split: sum.splits)

lemma servo_go_to_position_open_port:
  assumes "cmd_header p = [0xaa, 0xc]" and "serial p = Some written"
    and "0 \<le> number" and "number \<le> 255"
  shows "servo_go_to_position p number position = Inl TypeError"
  by (simp add: servo_go_to_position_hands_cmd
      servo_go_to_position_cmd_frame[OF assms(1,3,4)] bind_result_def
      serial_write_open_port[OF assms(2)])

lemma set_speed_open_port:
  assumes "cmd_header p = [0xaa, 0xc]" and "serial p = Some written"
    and "0 \<le> number" and "number \<le> 255"
  shows "set_speed p number speed = Inl TypeError"
  by (simp add: set_speed_hands_cmd set_speed_cmd_frame[OF assms(1,3,4)] bind_result_def
      serial_write_open_port[OF assms(2)])

subsection \<open>Values beyond fourteen bits\<close>

lemma set_speed_cmd_mod: "set_speed_cmd p number v = set_speed_cmd p number (v mod 16384)"
  unfolding set_speed_cmd_def Let_def by (simp only: low7_mod high7_mod)

lemma set_speed_mod: "set_speed p number v = set_speed p number (v mod 16384)"
  unfolding set_speed_def Let_def by (simp only: low7_mod high7_mod)

lemma servo_go_to_position_cmd_mod:
  assumes "clamped_position (config p) position mod 16384
             = clamped_position (config p) position' mod 16384"
  shows "servo_go_to_position_cmd p number position
           = servo_go_to_position_cmd p number position'"
proof -
  have "clamped_position (config p) position AND 0x7f
          = clamped_position (config p) position' AND 0x7f"
    using assms low7_mod by metis
  moreover have "drop_bit 7 (clamped_position (config p) position) AND 0x7f
          = drop_bit 7 (clamped_position (config p) position') AND 0x7f"
    using assms high7_mod by metis
  ultimately show ?thesis
    unfolding servo_go_to_position_cmd_def Let_def by simp
qed

lemma set_acceleration_raises: "set_acceleration p number accel = Inl (NameError ''chan'')"
  by (simp add: set_acceleration_def Let_def lookup_name_def bind_result_def chr_py_def)

subsection \<open>The position command\<close>

text \<open>
  Claim C1 is not met by the code. For channel 3 and value 6000 the driver builds the six
  code points \<open>0xaa 0x0c 0x04 3 112 46\<close>, the frame the claim describes, but it builds
  them as a \<open>str\<close>, and \<open>serial.write\<close> raises \<open>TypeError\<close> for a \<open>str\<close>: the call
  raises and no byte is written.
\<close>

theorem servo_go_to_position_raises_TypeError:
  "servo_go_to_position_cmd maestro_3000_9000 3 6000 = Inr [0xaa, 0xc, 0x04, 3, 112, 46]
   \<and> servo_go_to_position maestro_3000_9000 3 6000 = Inl TypeError"
proof -
  have "servo_go_to_position_cmd maestro_3000_9000 3 6000
          = Inr [0xaa, 0xc, 0x04, 3, 112, 46]"
    using servo_go_to_position_cmd_frame[of maestro_3000_9000 3 6000] bytes_of_6000
    by (simp add: clamped_position_def)
  moreover have "servo_go_to_position maestro_3000_9000 3 6000 = Inl TypeError"
    using servo_go_to_position_open_port[of maestro_3000_9000 "[]" 3 6000] by simp
  ultimately show ?thesis by simp
qed

text \<open>
  Claim C2. With limits that are not crossed (when both are positive, \<open>servo_min\<close> is not
  above \<open>servo_max\<close>), the value \<open>v\<close> that \<open>servo_go_to_position\<close> encodes into the command
  is \<open>servo_min\<close> when \<open>servo_min\<close> is positive and the request is below it, \<open>servo_max\<close>
  when \<open>servo_max\<close> is positive and the request is above it, and the request itself
  otherwise; a bound that is not positive clamps nothing on its side; \<open>v\<close> lies within
  every positive bound. With the limits 3000 and 9000 the requests 1000, 15000 and 5000
  give 3000, 9000 and 5000.
\<close>

theorem servo_go_to_position_clamps:
  assumes "cmd_header p = [0xaa, 0xc]" and "0 \<le> number" and "number \<le> 255"
    and "lo = servo_min (config p)" and "hi = servo_max (config p)"
    and "\<not> (0 < lo \<and> 0 < hi \<and> hi < lo)"
    and "v = clamped_position (config p) position"
  shows "servo_go_to_position_cmd p number position =
           Inr [0xaa, 0xc, 0x04, number, v AND 0x7f, drop_bit 7 v AND 0x7f]
     \<and> (0 < lo \<and> position < lo \<longrightarrow> v = lo)
     \<and> (0 < hi \<and> hi < position \<longrightarrow> v = hi)
     \<and> (lo \<le> 0 \<and> \<not> (0 < hi \<and> hi < position) \<longrightarrow> v = position)
     \<and> (hi \<le> 0 \<and> \<not> (0 < lo \<and> position < lo) \<longrightarrow> v = position)
     \<and> (\<not> (0 < lo \<and> position < lo) \<and> \<not> (0 < hi \<and> hi < position) \<longrightarrow> v = position)
     \<and> (0 < lo \<longrightarrow> lo \<le> v) \<and> (0 < hi \<longrightarrow> v \<le> hi)
     \<and> (lo = 3000 \<and> hi = 9000 \<longrightarrow>
          (position = 1000 \<longrightarrow> v = 3000) \<and> (position = 15000 \<longrightarrow> v = 9000)
          \<and> (position = 5000 \<longrightarrow> v = 5000))"
proof -
  have w: "servo_go_to_position_cmd p number position =
           Inr [0xaa, 0xc, 0x04, number, v AND 0x7f, drop_bit 7 v AND 0x7f]"
    using servo_go_to_position_cmd_frame[OF assms(1-3), of position] assms(7) by simp
  have v: "v = (let q = (if 0 < lo \<and> position < lo then lo else position)
                in if 0 < hi \<and> hi < q then hi else q)"
    using assms(4,5,7) by (simp add: clamped_position_def Let_def)
  show ?thesis
    using w v assms(6) by (auto simp: Let_def split: if_splits)
qed

theorem servo_go_to_position_clamps_witness:
  "cmd_header maestro_3000_9000 = [0xaa, 0xc] \<and> (0::int) \<le> 3 \<and> (3::int) \<le> 255
   \<and> 0 < servo_min (config maestro_3000_9000) \<and> 1000 < servo_min (config maestro_3000_9000)
   \<and> 0 < servo_max (config maestro_3000_9000) \<and> servo_max (config maestro_3000_9000) < 15000
   \<and> \<not> servo_max (config maestro_3000_9000) < servo_min (config maestro_3000_9000)
   \<and> clamped_position (config maestro_3000_9000) 1000 = 3000
   \<and> clamped_position (config maestro_3000_9000) 15000 = 9000
   \<and> clamped_position (config maestro_3000_9000) 5000 = 5000
   \<and> servo_go_to_position_cmd maestro_3000_9000 3 1000 =
        Inr [0xaa, 0xc, 0x04, 3, 3000 AND 0x7f, drop_bit 7 3000 AND 0x7f]"
proof -
  have a: "clamped_position (config maestro_3000_9000) 1000 = 3000
      \<and> servo_go_to_position_cmd maestro_3000_9000 3 1000 =
        Inr [0xaa, 0xc, 0x04, 3,
          clamped_position (config maestro_3000_9000) 1000 AND 0x7f,
          drop_bit 7 (clamped_position (config maestro_3000_9000) 1000) AND 0x7f]"
    using servo_go_to_position_clamps[of maestro_3000_9000 3 3000 9000
        "clamped_position (config maestro_3000_9000) 1000" 1000]
    by simp
  have b: "clamped_position (config maestro_3000_9000) 15000 = 9000"
    using servo_go_to_position_clamps[of maestro_3000_9000 3 3000 9000
        "clamped_position (config maestro_3000_9000) 15000" 15000]
    by simp
  have c: "clamped_position (config maestro_3000_9000) 5000 = 5000"
    using servo_go_to_position_clamps[of maestro_3000_9000 3 3000 9000
        "clamped_position (config maestro_3000_9000) 5000" 5000]
    by simp
  show ?thesis using a b c by simp
qed

subsection \<open>The acceleration command\<close>

text \<open>
  Claim C3 is not met by the code. \<open>set_acceleration\<close> names \<open>chan\<close>, which is bound
  nowhere, so every call raises \<open>NameError\<close> before the command is complete; \<open>set_speed\<close>
  with the same arguments builds its command from the channel parameter. The claim asks
  for the frame \<open>0xaa 0x0c 0x09 3 10 0\<close> at this input.
\<close>

theorem set_acceleration_raises_NameError:
  "set_acceleration maestro_3000_9000 3 10 = Inl (NameError ''chan'')
   \<and> set_speed_cmd maestro_3000_9000 3 10 = Inr [0xaa, 0xc, 0x07, 3, 10, 0]"
proof -
  have ex: "(10::int) AND 0x7f = 10 \<and> drop_bit 7 (10::int) AND 0x7f = 0"
    by (simp add: and_7f_take_bit take_bit_eq_mod drop_bit_eq_div)
  show ?thesis
    using set_acceleration_raises[of maestro_3000_9000 3 10]
      set_speed_cmd_frame[of maestro_3000_9000 3 10] ex
    by simp
qed

subsection \<open>The wrap of large values\<close>

text \<open>
  Claim C8 is not met by the code. The reduction itself is there: for the value 22384 both
  encoders build the same command as for \<open>22384 mod 16384 = 6000\<close>, with the value bytes
  112 and 46. But the command is a \<open>str\<close>, so \<open>serial.write\<close> raises \<open>TypeError\<close>: the
  call does not end without an error and no frame is written.
\<close>

theorem large_value_wraps_but_write_raises_TypeError:
  "set_speed_cmd maestro_unclamped 3 22384 = Inr [0xaa, 0xc, 0x07, 3, 112, 46]
   \<and> set_speed_cmd maestro_unclamped 3 (22384 mod 16384) = Inr [0xaa, 0xc, 0x07, 3, 112, 46]
   \<and> set_speed maestro_unclamped 3 22384 = Inl TypeError
   \<and> servo_go_to_position_cmd maestro_unclamped 3 22384 = Inr [0xaa, 0xc, 0x04, 3, 112, 46]
   \<and> servo_go_to_position_cmd maestro_unclamped 3 (22384 mod 16384)
        = Inr [0xaa, 0xc, 0x04, 3, 112, 46]
   \<and> servo_go_to_position maestro_unclamped 3 22384 = Inl TypeError"
proof -
  have m: "(22384::int) mod 16384 = 6000" by simp
  have b: "(22384::int) AND 0x7f = 112 \<and> drop_bit 7 (22384::int) AND 0x7f = 46"
    using low7_mod[of 22384] high7_mod[of 22384] bytes_of_6000 by (simp only: m)
  have s1: "set_speed_cmd maestro_unclamped 3 22384 = Inr [0xaa, 0xc, 0x07, 3, 112, 46]"
    using set_speed_cmd_frame[of maestro_unclamped 3 22384] b by simp
  have s2: "set_speed_cmd maestro_unclamped 3 (22384 mod 16384)
              = Inr [0xaa, 0xc, 0x07, 3, 112, 46]"
    using set_speed_cmd_mod[of maestro_unclamped 3 22384] s1 by simp
  have s3: "set_speed maestro_unclamped 3 22384 = Inl TypeError"
    using set_speed_open_port[of maestro_unclamped "[]" 3 22384] by simp
  have g1: "servo_go_to_position_cmd maestro_unclamped 3 22384
              = Inr [0xaa, 0xc, 0x04, 3, 112, 46]"
    using servo_go_to_position_cmd_frame[of maestro_unclamped 3 22384] b
    by (simp add: clamped_position_def)
  have g2: "servo_go_to_position_cmd maestro_unclamped 3 (22384 mod 16384)
              = Inr [0xaa, 0xc, 0x04, 3, 112, 46]"
    using servo_go_to_position_cmd_frame[of maestro_unclamped 3 6000] bytes_of_6000
    by (simp add: clamped_position_def)
  have g3: "servo_go_to_position maestro_unclamped 3 22384 = Inl TypeError"
    using servo_go_to_position_open_port[of maestro_unclamped "[]" 3 22384] by simp
  show ?thesis using s1 s2 s3 g1 g2 g3 by simp
qed

section \<open>Properties of the switch device\<close>

subsection \<open>Splitting and replacing\<close>

lemma str_split_no_sep: "sep \<notin> set s \<Longrightarrow> str_split s sep = [s]"
  by (induction s) auto

lemma str_split_one_sep:
  "sep \<notin> set a \<Longrightarrow> str_split (a @ sep # b) sep = a # str_split b sep"
  by (induction a) auto

lemma str_split_not_Nil: "str_split s sep \<noteq> []"
  by (induction s) (auto split: list.splits)

lemma length_str_split: "length (str_split s sep) = Suc (count_list s sep)"
  by (induction s) (auto simp: str_split_not_Nil split: list.splits)

lemma set_str_replace: "set (str_replace s old new) \<subseteq> set s \<union> set new"
  by (auto simp: str_replace_def split: if_splits)

lemma three_or_more:
  assumes "3 \<le> length xs"
  shows "\<exists>a b c rest. xs = a # b # c # rest"
proof (cases xs)
  case Nil
  with assms show ?thesis by simp
next
  case outer: (Cons a ys)
  show ?thesis
  proof (cases ys)
    case Nil
    with outer assms show ?thesis by simp
  next
    case middle: (Cons b zs)
    show ?thesis
    proof (cases zs)
      case Nil
      with outer middle assms show ?thesis by simp
    next
      case (Cons c rest)
      with outer middle show ?thesis by simp
    qed
  qed
qed

subsection \<open>Construction\<close>

text \<open>
  Claim C9. A newly constructed switch has logical state 0, hardware state 0, invert 0,
  \<open>recycle_secs\<close> 0, \<open>recycle_clear_time\<close> 0 and \<open>recycle_jitter_count\<close> 0, and the
  constructor itself makes the \<open>register_switch(name)\<close> call: the switch controller that
  the constructor leaves behind has the name registered.
\<close>

theorem Switch_init_all_zero:
  "state (fst (Switch_init super_init nm ctl)) = 0
   \<and> hw_state (fst (Switch_init super_init nm ctl)) = 0
   \<and> invert (fst (Switch_init super_init nm ctl)) = 0
   \<and> recycle_secs (fst (Switch_init super_init nm ctl)) = 0
   \<and> recycle_clear_time (fst (Switch_init super_init nm ctl)) = 0
   \<and> recycle_jitter_count (fst (Switch_init super_init nm ctl)) = 0
   \<and> registered_switches (snd (Switch_init super_init nm ctl)) = registered_switches ctl @ [nm]
   \<and> nm \<in> set (registered_switches (snd (Switch_init super_init nm ctl)))"
  by (simp add: Switch_init_def register_switch_def Let_def)

subsection \<open>Polarity\<close>

lemma Switch_initialize_invert:
  "invert (fst (Switch_initialize env self ctl)) =
     (if str_upper (cfg_type (sw_config self)) = ''NC'' then 1 else invert self)"
  by (simp add: Switch_initialize_def Let_def)

text \<open>
  Claim C5. For a switch as the constructor made it, with tags and configuration loaded
  afterwards, \<open>_initialize\<close> leaves \<open>invert = 1\<close> when the configured type is \<open>NC\<close> and
  \<open>invert = 0\<close> when it is \<open>NO\<close>, whatever happens in the rest of the initialisation.
\<close>

theorem Switch_initialize_polarity:
  assumes "self = (fst (Switch_init super_init nm ctl0))\<lparr>tags := tgs, sw_config := cfg\<rparr>"
  shows "(cfg_type cfg = ''NC'' \<longrightarrow> invert (fst (Switch_initialize env self ctl)) = 1)
       \<and> (cfg_type cfg = ''NO'' \<longrightarrow> invert (fst (Switch_initialize env self ctl)) = 0)"
proof -
  have i0: "invert self = 0" and c: "sw_config self = cfg"
    using assms by (simp_all add: Switch_init_def Let_def)
  have nc: "str_upper ''NC'' = ''NC''" and no: "str_upper ''NO'' \<noteq> ''NC''"
    by (simp_all add: str_upper_def upper_char_def)
  show ?thesis
    using Switch_initialize_invert[of env self ctl] i0 c nc no by auto
qed


theorem Switch_initialize_polarity_witness:
  "cfg_type (example_section ''NC'' ''7'') = ''NC''
   \<and> invert (fst (Switch_initialize example_env
        ((fst (Switch_init example_super_init ''s1'' no_calls))
           \<lparr>tags := [''t''], sw_config := example_section ''NC'' ''7''\<rparr>) no_calls)) = 1
   \<and> cfg_type (example_section ''NO'' ''7'') = ''NO''
   \<and> invert (fst (Switch_initialize example_env
        ((fst (Switch_init example_super_init ''s1'' no_calls))
           \<lparr>tags := [''t''], sw_config := example_section ''NO'' ''7''\<rparr>) no_calls)) = 0"
  using Switch_initialize_polarity[where super_init = example_super_init and nm = "''s1''"
      and ?ctl0.0 = no_calls and tgs = "[''t'']" and cfg = "example_section ''NC'' ''7''"
      and env = example_env and ctl = no_calls, OF refl]
    Switch_initialize_polarity[where super_init = example_super_init and nm = "''s1''"
      and ?ctl0.0 = no_calls and tgs = "[''t'']" and cfg = "example_section ''NO'' ''7''"
      and env = example_env and ctl = no_calls, OF refl]
  by simp

subsection \<open>Event strings with a delay suffix\<close>

lemma create_event_plain:
  "CHR ''|'' \<notin> set event_str \<Longrightarrow>
   Switch_create_activation_event env self event_str st ctl =
     Inr (add_switch_handler ctl (name self) st event_str 0)"
  by (simp add: Switch_create_activation_event_def)

lemma create_event_delayed:
  assumes "CHR ''|'' \<notin> set event" and "CHR ''|'' \<notin> set ev_time"
  shows "Switch_create_activation_event env self (event @ ''|'' @ ev_time) st ctl =
     bind_result (string_to_ms env ev_time)
       (\<lambda>ms. Inr (add_switch_handler ctl (name self) st event ms))"
proof -
  have "str_split (event @ ''|'' @ ev_time) CHR ''|'' = [event, ev_time]"
    using str_split_one_sep[OF assms(1), of ev_time] str_split_no_sep[OF assms(2)] by simp
  then show ?thesis by (simp add: Switch_create_activation_event_def)
qed

text \<open>
  Claim C6. For an event string \<open>event|ev_time\<close> with no further separator, the handler
  registered has the text before the separator as its event and \<open>string_to_ms(ev_time)\<close>
  as its settle time; an event string without a separator is registered whole with
  settle time 0. Under the dispatch rule of the specification the first handler is checked
  again \<open>ms\<close> after the transition and the second fires synchronously.
\<close>

theorem create_activation_event_delay_suffix:
  assumes "CHR ''|'' \<notin> set event" and "CHR ''|'' \<notin> set ev_time"
    and "string_to_ms env ev_time = Inr ms"
    and "CHR ''|'' \<notin> set plain"
  shows "Switch_create_activation_event env self (event @ ''|'' @ ev_time) st ctl =
           Inr (ctl\<lparr>switch_handlers := switch_handlers ctl @
             [\<lparr>h_switch_name = name self, h_state = st, h_event = event, h_ms = ms\<rparr>]\<rparr>)
     \<and> Switch_create_activation_event env self plain st ctl =
           Inr (ctl\<lparr>switch_handlers := switch_handlers ctl @
             [\<lparr>h_switch_name = name self, h_state = st, h_event = plain, h_ms = 0\<rparr>]\<rparr>)
     \<and> (0 < ms \<longrightarrow>
          dispatch_handler
            \<lparr>h_switch_name = name self, h_state = st, h_event = event, h_ms = ms\<rparr> st T
          = Settle_check_at (T + ms))
     \<and> dispatch_handler
          \<lparr>h_switch_name = name self, h_state = st, h_event = plain, h_ms = 0\<rparr> st T
        = Fires_synchronously"
  using create_event_delayed[OF assms(1,2), of env self st ctl]
    create_event_plain[OF assms(4), of env self st ctl] assms(3)
  by (simp add: bind_result_def add_switch_handler_def dispatch_handler_def)

theorem create_activation_event_delay_suffix_witness:
  "CHR ''|'' \<notin> set ''event_name'' \<and> CHR ''|'' \<notin> set ''250''
   \<and> string_to_ms example_env ''250'' = Inr 250
   \<and> Switch_create_activation_event example_env
        (fst (Switch_init example_super_init ''s1'' no_calls)) ''event_name|250'' 1 no_calls
      = Inr \<lparr>registered_switches = [],
             switch_handlers =
               [\<lparr>h_switch_name = ''s1'', h_state = 1, h_event = ''event_name'', h_ms = 250\<rparr>]\<rparr>
   \<and> Switch_create_activation_event example_env
        (fst (Switch_init example_super_init ''s1'' no_calls)) ''event_name'' 1 no_calls
      = Inr \<lparr>registered_switches = [],
             switch_handlers =
               [\<lparr>h_switch_name = ''s1'', h_state = 1, h_event = ''event_name'', h_ms = 0\<rparr>]\<rparr>
   \<and> dispatch_handler
        \<lparr>h_switch_name = ''s1'', h_state = 1, h_event = ''event_name'', h_ms = 250\<rparr> 1 1000
      = Settle_check_at 1250"
proof -
  have ms: "string_to_ms example_env ''250'' = Inr 250"
    by (simp add: decimal_string_to_ms_def digit_value_def)
  have nm: "name (fst (Switch_init example_super_init ''s1'' no_calls
              :: (string, string) Switch \<times> switch_controller)) = ''s1''"
    by (simp add: Switch_init_def)
  show ?thesis
    using create_activation_event_delay_suffix[of "''event_name''" "''250''" example_env 250
        "''event_name''" "fst (Switch_init example_super_init ''s1'' no_calls)" 1 no_calls 1000]
      ms nm
    by simp
qed

text \<open>
  Claim C10. An event string with more than one separator is never registered:
  \<open>_create_activation_event\<close> raises \<open>ValueError\<close> when it unpacks the result of the split.
\<close>

theorem create_activation_event_rejects_second_separator:
  assumes "1 < count_list event_str CHR ''|''"
  shows "Switch_create_activation_event env self event_str st ctl = Inl ValueError"
proof -
  have mem: "CHR ''|'' \<in> set event_str"
    using assms count_notin[of "CHR ''|''" event_str] by fastforce
  have "3 \<le> length (str_split event_str CHR ''|'')"
    using assms by (simp add: length_str_split)
  then obtain a b c rest where "str_split event_str CHR ''|'' = a # b # c # rest"
    using three_or_more by blast
  then show ?thesis using mem by (simp add: Switch_create_activation_event_def)
qed

theorem create_activation_event_rejects_second_separator_witness:
  "1 < count_list ''event_name|250|500'' CHR ''|''
   \<and> Switch_create_activation_event example_env
        (fst (Switch_init example_super_init ''s1'' no_calls)) ''event_name|250|500'' 1 no_calls
      = Inl ValueError"
proof -
  have c: "1 < count_list ''event_name|250|500'' CHR ''|''" by simp
  show ?thesis
    using create_activation_event_rejects_second_separator[OF c, of example_env
        "fst (Switch_init example_super_init ''s1'' no_calls)" 1 no_calls] c
    by simp
qed

subsection \<open>Tag events\<close>

lemma create_event_handlers_mono:
  "Switch_create_activation_event env self ev st ctl = Inr ctl' \<Longrightarrow>
   set (switch_handlers ctl) \<subseteq> set (switch_handlers ctl')"
  by (auto simp: Switch_create_activation_event_def bind_result_def add_switch_handler_def
      split: if_splits list.splits sum.splits)

lemma create_events_mono:
  "create_activation_events env self reqs ctl = (ctl', r) \<Longrightarrow>
   set (switch_handlers ctl) \<subseteq> set (switch_handlers ctl')"
proof (induction reqs arbitrary: ctl)
  case Nil
  then show ?case by simp
next
  case (Cons req reqs)
  obtain ev st where req: "req = (ev, st)" by (cases req)
  show ?case
  proof (cases "Switch_create_activation_event env self ev st ctl")
    case (Inl e)
    with Cons.prems req show ?thesis by simp
  next
    case (Inr ctl1)
    with Cons.prems req have "create_activation_events env self reqs ctl1 = (ctl', r)"
      by simp
    from Cons.IH[OF this] create_event_handlers_mono[OF Inr] show ?thesis by blast
  qed
qed

lemma create_events_registered:
  "create_activation_events env self reqs ctl = (ctl', None) \<Longrightarrow>
   (ev, st) \<in> set reqs \<Longrightarrow> CHR ''|'' \<notin> set ev \<Longrightarrow>
   \<lparr>h_switch_name = name self, h_state = st, h_event = ev, h_ms = 0\<rparr>
     \<in> set (switch_handlers ctl')"
proof (induction reqs arbitrary: ctl)
  case Nil
  then show ?case by simp
next
  case (Cons req reqs)
  obtain ev' st' where req: "req = (ev', st')" by (cases req)
  show ?case
  proof (cases "Switch_create_activation_event env self ev' st' ctl")
    case (Inl e)
    with Cons.prems(1) req show ?thesis by simp
  next
    case (Inr ctl1)
    with Cons.prems(1) req
    have rest: "create_activation_events env self reqs ctl1 = (ctl', None)" by simp
    show ?thesis
    proof (cases "(ev, st) = req")
      case True
      with req Inr Cons.prems(3)
      have "ctl1 = add_switch_handler ctl (name self) st ev 0"
        by (simp add: create_event_plain)
      then have "\<lparr>h_switch_name = name self, h_state = st, h_event = ev, h_ms = 0\<rparr>
                   \<in> set (switch_handlers ctl1)"
        by (simp add: add_switch_handler_def)
      with create_events_mono[OF rest] show ?thesis by blast
    next
      case False
      with Cons.prems(2) have "(ev, st) \<in> set reqs" by auto
      from Cons.IH[OF rest this Cons.prems(3)] show ?thesis .
    qed
  qed
qed

lemma Switch_initialize_calls:
  "snd (Switch_initialize env self ctl) =
     create_activation_events env (fst (Switch_initialize env self ctl))
       ((if auto_create_switch_events (mpf env)
         then [(str_replace (switch_event_active (mpf env)) CHR ''%'' (name self), 1),
               (str_replace (switch_event_inactive (mpf env)) CHR ''%'' (name self), 0)]
         else []) @
        concat (map (\<lambda>tag.
          [(str_replace (switch_tag_event (mpf env)) CHR ''%'' tag, 1),
           (str_replace (switch_tag_event (mpf env)) CHR ''%'' tag @ ''_active'', 1),
           (str_replace (switch_tag_event (mpf env)) CHR ''%'' tag @ ''_inactive'', 0)])
          (tags self)) @
        map (\<lambda>event. (event, 1))
          (string_to_lowercase_list env (cfg_events_when_activated (sw_config self))) @
        map (\<lambda>event. (event, 0))
          (string_to_lowercase_list env (cfg_events_when_deactivated (sw_config self)))) ctl"
  by (cases "str_upper (cfg_type (sw_config self)) = ''NC''";
      cases "auto_create_switch_events (mpf env)")
     (simp_all add: Switch_initialize_def Let_def del: create_activation_events.simps)

lemma Switch_initialize_name: "name (fst (Switch_initialize env self ctl)) = name self"
  by (simp add: Switch_initialize_def Let_def)

text \<open>
  Claim C7, as amended. When \<open>_initialize\<close> completes, and neither the tag-event template
  nor the tag contains a separator, every tag of the switch has three handlers with settle
  time 0: two for state 1, posting the template with \<open>%\<close> replaced by the tag and that name
  followed by \<open>_active\<close>, and one for state 0, posting that name followed by \<open>_inactive\<close>.
\<close>

theorem Switch_initialize_tag_events:
  assumes init: "Switch_initialize env self ctl = (self', ctl', None)"
    and tag: "tag \<in> set (tags self)"
    and tmpl: "CHR ''|'' \<notin> set (switch_tag_event (mpf env))"
    and tg: "CHR ''|'' \<notin> set tag"
    and ev: "ev = str_replace (switch_tag_event (mpf env)) CHR ''%'' tag"
  shows "\<lparr>h_switch_name = name self, h_state = 1, h_event = ev, h_ms = 0\<rparr>
           \<in> set (switch_handlers ctl')
       \<and> \<lparr>h_switch_name = name self, h_state = 1, h_event = ev @ ''_active'', h_ms = 0\<rparr>
           \<in> set (switch_handlers ctl')
       \<and> \<lparr>h_switch_name = name self, h_state = 0, h_event = ev @ ''_inactive'', h_ms = 0\<rparr>
           \<in> set (switch_handlers ctl')
       \<and> ev \<in> set (posted_events ctl' 1)
       \<and> ev @ ''_active'' \<in> set (posted_events ctl' 1)
       \<and> ev @ ''_inactive'' \<in> set (posted_events ctl' 0)"
proof -
  let ?reqs = "(if auto_create_switch_events (mpf env)
         then [(str_replace (switch_event_active (mpf env)) CHR ''%'' (name self), 1),
               (str_replace (switch_event_inactive (mpf env)) CHR ''%'' (name self), 0)]
         else []) @
        concat (map (\<lambda>tag.
          [(str_replace (switch_tag_event (mpf env)) CHR ''%'' tag, 1),
           (str_replace (switch_tag_event (mpf env)) CHR ''%'' tag @ ''_active'', 1),
           (str_replace (switch_tag_event (mpf env)) CHR ''%'' tag @ ''_inactive'', 0)])
          (tags self)) @
        map (\<lambda>event. (event, 1::int))
          (string_to_lowercase_list env (cfg_events_when_activated (sw_config self))) @
        map (\<lambda>event. (event, 0))
          (string_to_lowercase_list env (cfg_events_when_deactivated (sw_config self)))"
  have run: "create_activation_events env self' ?reqs ctl = (ctl', None)"
    using Switch_initialize_calls[of env self ctl] init by simp
  have nm: "name self' = name self"
    using Switch_initialize_name[of env self ctl] init by simp
  have bar: "CHR ''|'' \<notin> set ev"
    using set_str_replace[of "switch_tag_event (mpf env)" "CHR ''%''" tag] tmpl tg ev by auto
  then have bars: "CHR ''|'' \<notin> set (ev @ ''_active'')" "CHR ''|'' \<notin> set (ev @ ''_inactive'')"
    by simp_all
  have mem: "(ev, 1) \<in> set ?reqs" "(ev @ ''_active'', 1) \<in> set ?reqs"
    "(ev @ ''_inactive'', 0) \<in> set ?reqs"
    using tag ev by auto
  have h1: "\<lparr>h_switch_name = name self, h_state = 1, h_event = ev, h_ms = 0\<rparr>
           \<in> set (switch_handlers ctl')"
    using create_events_registered[OF run mem(1) bar] nm by simp
  have h2: "\<lparr>h_switch_name = name self, h_state = 1, h_event = ev @ ''_active'', h_ms = 0\<rparr>
           \<in> set (switch_handlers ctl')"
    using create_events_registered[OF run mem(2) bars(1)] nm by simp
  have h3: "\<lparr>h_switch_name = name self, h_state = 0, h_event = ev @ ''_inactive'', h_ms = 0\<rparr>
           \<in> set (switch_handlers ctl')"
    using create_events_registered[OF run mem(3) bars(2)] nm by simp
  have p1: "ev \<in> set (posted_events ctl' 1)"
    using h1 by (force simp: posted_events_def)
  have p2: "ev @ ''_active'' \<in> set (posted_events ctl' 1)"
    using h2 by (force simp: posted_events_def)
  have p3: "ev @ ''_inactive'' \<in> set (posted_events ctl' 0)"
    using h3 by (force simp: posted_events_def)
  show ?thesis using h1 h2 h3 p1 p2 p3 by simp
qed

lemma example_initialize:
  "Switch_initialize example_env
     ((fst (Switch_init example_super_init ''s1'' no_calls))
        \<lparr>tags := [''t''], sw_config := example_section ''NO'' ''7''\<rparr>) no_calls
   = (\<lparr>name = ''s1'', tags = [''t''], sw_config = example_section ''NO'' ''7'',
       hw_switch = Some \<lparr>hw_number = ''7''\<rparr>, platform = Some ''virtual'',
       state = 0, hw_state = 0, invert = 0,
       recycle_secs = 0, recycle_clear_time = 0, recycle_jitter_count = 0\<rparr>,
      \<lparr>registered_switches = [],
       switch_handlers =
         [\<lparr>h_switch_name = ''s1'', h_state = 1, h_event = ''s1_active'', h_ms = 0\<rparr>,
          \<lparr>h_switch_name = ''s1'', h_state = 0, h_event = ''s1_inactive'', h_ms = 0\<rparr>,
          \<lparr>h_switch_name = ''s1'', h_state = 1, h_event = ''sw_t'', h_ms = 0\<rparr>,
          \<lparr>h_switch_name = ''s1'', h_state = 1, h_event = ''sw_t_active'', h_ms = 0\<rparr>,
          \<lparr>h_switch_name = ''s1'', h_state = 0, h_event = ''sw_t_inactive'', h_ms = 0\<rparr>]\<rparr>,
      None)"
  by (simp add: Switch_initialize_def Switch_init_def Let_def str_upper_def upper_char_def
      str_replace_def Switch_create_activation_event_def add_switch_handler_def)

theorem Switch_initialize_tag_events_witness:
  "''t'' \<in> set (tags ((fst (Switch_init example_super_init ''s1'' no_calls
                           :: (string, string) Switch \<times> switch_controller))
                       \<lparr>tags := [''t''], sw_config := example_section ''NO'' ''7''\<rparr>))
   \<and> CHR ''|'' \<notin> set (switch_tag_event (mpf example_env))
   \<and> CHR ''|'' \<notin> set ''t''
   \<and> ''sw_t'' = str_replace (switch_tag_event (mpf example_env)) CHR ''%'' ''t''
   \<and> snd (snd (Switch_initialize example_env
        ((fst (Switch_init example_super_init ''s1'' no_calls))
           \<lparr>tags := [''t''], sw_config := example_section ''NO'' ''7''\<rparr>) no_calls)) = None
   \<and> ''sw_t'' \<in> set (posted_events (fst (snd (Switch_initialize example_env
        ((fst (Switch_init example_super_init ''s1'' no_calls))
           \<lparr>tags := [''t''], sw_config := example_section ''NO'' ''7''\<rparr>) no_calls))) 1)
   \<and> ''sw_t_active'' \<in> set (posted_events (fst (snd (Switch_initialize example_env
        ((fst (Switch_init example_super_init ''s1'' no_calls))
           \<lparr>tags := [''t''], sw_config := example_section ''NO'' ''7''\<rparr>) no_calls))) 1)
   \<and> ''sw_t_inactive'' \<in> set (posted_events (fst (snd (Switch_initialize example_env
        ((fst (Switch_init example_super_init ''s1'' no_calls))
           \<lparr>tags := [''t''], sw_config := example_section ''NO'' ''7''\<rparr>) no_calls))) 0)"
proof -
  have tag: "''t'' \<in> set (tags ((fst (Switch_init example_super_init ''s1'' no_calls
                           :: (string, string) Switch \<times> switch_controller))
                       \<lparr>tags := [''t''], sw_config := example_section ''NO'' ''7''\<rparr>))"
    by simp
  have tmpl: "CHR ''|'' \<notin> set (switch_tag_event (mpf example_env))" by simp
  have tg: "CHR ''|'' \<notin> set ''t''" by simp
  have ev: "str_replace (switch_tag_event (mpf example_env)) CHR ''%'' ''t'' = ''sw_t''"
    by (simp add: str_replace_def)
  note registered = Switch_initialize_tag_events[OF example_initialize tag tmpl tg refl]
  have posted: "''sw_t'' \<in> set (posted_events (fst (snd (Switch_initialize example_env
        ((fst (Switch_init example_super_init ''s1'' no_calls))
           \<lparr>tags := [''t''], sw_config := example_section ''NO'' ''7''\<rparr>) no_calls))) 1)
   \<and> ''sw_t_active'' \<in> set (posted_events (fst (snd (Switch_initialize example_env
        ((fst (Switch_init example_super_init ''s1'' no_calls))
           \<lparr>tags := [''t''], sw_config := example_section ''NO'' ''7''\<rparr>) no_calls))) 1)
   \<and> ''sw_t_inactive'' \<in> set (posted_events (fst (snd (Switch_initialize example_env
        ((fst (Switch_init example_super_init ''s1'' no_calls))
           \<lparr>tags := [''t''], sw_config := example_section ''NO'' ''7''\<rparr>) no_calls))) 0)"
    using registered unfolding ev example_initialize by simp
  have none: "snd (snd (Switch_initialize example_env
        ((fst (Switch_init example_super_init ''s1'' no_calls))
           \<lparr>tags := [''t''], sw_config := example_section ''NO'' ''7''\<rparr>) no_calls)) = None"
    unfolding example_initialize by simp
  show ?thesis using tag tmpl tg ev posted none by simp
qed

text \<open>
  The claim as first stated gives the deactivation handler the name made from the template
  alone. For the switch \<open>s1\<close> with the tag \<open>t\<close> and the template \<open>sw_%\<close> the events posted
  on deactivation are \<open>s1_inactive\<close> and \<open>sw_t_inactive\<close>; \<open>sw_t\<close> is not among them.
\<close>

theorem tag_event_deactivation_counterexample:
  "snd (snd (Switch_initialize example_env
        ((fst (Switch_init example_super_init ''s1'' no_calls))
           \<lparr>tags := [''t''], sw_config := example_section ''NO'' ''7''\<rparr>) no_calls)) = None
   \<and> str_replace (switch_tag_event (mpf example_env)) CHR ''%'' ''t'' = ''sw_t''
   \<and> posted_events (fst (snd (Switch_initialize example_env
        ((fst (Switch_init example_super_init ''s1'' no_calls))
           \<lparr>tags := [''t''], sw_config := example_section ''NO'' ''7''\<rparr>) no_calls))) 0
      = [''s1_inactive'', ''sw_t_inactive'']
   \<and> str_replace (switch_tag_event (mpf example_env)) CHR ''%'' ''t''
      \<notin> set (posted_events (fst (snd (Switch_initialize example_env
        ((fst (Switch_init example_super_init ''s1'' no_calls))
           \<lparr>tags := [''t''], sw_config := example_section ''NO'' ''7''\<rparr>) no_calls))) 0)"
  by (simp add: example_initialize posted_events_def str_replace_def)

subsection \<open>Duplicate switch numbers\<close>

lemma example_switch_initialized:
  "fst (Switch_initialize example_env
     ((fst (Switch_init example_super_init nm no_calls))
        \<lparr>sw_config :=
           \<lparr>cfg_type = ''NO'', cfg_platform = Some pl, cfg_number = number,
            cfg_ignore_window_ms = 0, cfg_debounce = ''auto'', cfg_platform_settings = [],
            cfg_events_when_activated = [], cfg_events_when_deactivated = []\<rparr>\<rparr>) no_calls)
   = example_switch nm pl number"
  by (simp add: Switch_initialize_def Switch_init_def Let_def str_upper_def upper_char_def)

lemma check_duplicates_loop_result:
  "\<forall>switch \<in> set switches. hw_switch switch \<noteq> None \<Longrightarrow>
   check_duplicates_loop check_set switches =
     (if distinct (map switch_key switches)
         \<and> (\<forall>switch \<in> set switches. \<forall>(p, n) \<in> check_set. switch_key switch \<noteq> (p, Some n))
      then Inr () else Inl AssertionError)"
proof (induction switches arbitrary: check_set)
  case Nil
  then show ?case by simp
next
  case (Cons switch rest)
  then obtain hw where hw: "hw_switch switch = Some hw" by auto
  have rest: "\<forall>switch \<in> set rest. hw_switch switch \<noteq> None" using Cons.prems by simp
  have key: "switch_key switch = (platform switch, Some (hw_number hw))"
    using hw by (simp add: switch_key_def)
  show ?case
  proof (cases "(platform switch, hw_number hw) \<in> check_set")
    case True
    then have "\<not> (\<forall>(p, n) \<in> check_set. switch_key switch \<noteq> (p, Some n))"
      using key by auto
    then show ?thesis using hw True by simp
  next
    case False
    then have fresh: "\<forall>(p, n) \<in> check_set. switch_key switch \<noteq> (p, Some n)"
      using key by auto
    have new: "(\<forall>s \<in> set rest. \<forall>(p, n) \<in> insert (platform switch, hw_number hw) check_set.
                 switch_key s \<noteq> (p, Some n))
           \<longleftrightarrow> switch_key switch \<notin> switch_key ` set rest
               \<and> (\<forall>s \<in> set rest. \<forall>(p, n) \<in> check_set. switch_key s \<noteq> (p, Some n))"
      unfolding key by force
    have "check_duplicates_loop check_set (switch # rest) =
          check_duplicates_loop (insert (platform switch, hw_number hw) check_set) rest"
      using hw False by simp
    also have "\<dots> = (if distinct (map switch_key rest)
         \<and> (\<forall>s \<in> set rest. \<forall>(p, n) \<in> insert (platform switch, hw_number hw) check_set.
               switch_key s \<noteq> (p, Some n))
      then Inr () else Inl AssertionError)"
      using Cons.IH[OF rest] by simp
    also have "\<dots> = (if distinct (map switch_key (switch # rest))
         \<and> (\<forall>s \<in> set (switch # rest). \<forall>(p, n) \<in> check_set. switch_key s \<noteq> (p, Some n))
      then Inr () else Inl AssertionError)"
      unfolding new using fresh by auto
    finally show ?thesis .
  qed
qed

lemma check_duplicates_result:
  "\<forall>switch \<in> set switches. hw_switch switch \<noteq> None \<Longrightarrow>
   Switch_check_duplicate_switch_numbers switches =
     (if distinct (map switch_key switches) then Inr () else Inl AssertionError)"
  by (simp add: Switch_check_duplicate_switch_numbers_def check_duplicates_loop_result)

lemma post_event_checkpoint:
  "post_event (events @ [(event, Check_duplicate_switch_numbers)]) event switches =
     Switch_check_duplicate_switch_numbers switches"
proof (induction events event switches rule: post_event.induct)
  case (1 event switches)
  then show ?case
    by (cases "Switch_check_duplicate_switch_numbers switches") (simp_all add: bind_result_def)
next
  case (2 registered handlers event switches)
  then show ?case
    by (cases "Switch_check_duplicate_switch_numbers switches") (simp_all add: bind_result_def)
qed


lemma distinct_platforms_distinct_keys:
  "distinct (map platform switches) \<Longrightarrow> distinct (map switch_key switches)"
  by (induction switches) (auto simp: switch_key_def)

lemma shared_key_iff:
  "\<not> distinct (map switch_key switches) \<longleftrightarrow>
   (\<exists>i j. i < j \<and> j < length switches \<and> switch_key (switches ! i) = switch_key (switches ! j))"
proof
  assume "\<not> distinct (map switch_key switches)"
  then obtain i j where ij: "i < length switches" "j < length switches" "i \<noteq> j"
      "switch_key (switches ! i) = switch_key (switches ! j)"
    by (auto simp: distinct_conv_nth)
  show "\<exists>i j. i < j \<and> j < length switches \<and> switch_key (switches ! i) = switch_key (switches ! j)"
  proof (cases "i < j")
    case True
    with ij show ?thesis by blast
  next
    case False
    with ij have "j < i" by simp
    with ij show ?thesis by metis
  qed
next
  assume "\<exists>i j. i < j \<and> j < length switches \<and> switch_key (switches ! i) = switch_key (switches ! j)"
  then obtain i j where ij: "i < j" "j < length switches"
      "switch_key (switches ! i) = switch_key (switches ! j)"
    by blast
  then have "i < length (map switch_key switches)" "j < length (map switch_key switches)"
      "i \<noteq> j" "map switch_key switches ! i = map switch_key switches ! j"
    by simp_all
  then show "\<not> distinct (map switch_key switches)"
    using nth_eq_iff_index_eq by blast
qed

text \<open>
  Claim C4. \<open>device_class_init\<close> registers the check for the checkpoint \<open>init_phase_4\<close>.
  Over switches that all have their hardware handle, the check raises \<open>AssertionError\<close>
  if and only if two of them have the same platform and the same hardware number, and
  returns normally otherwise; switches on pairwise different platforms never make it
  raise, whatever their numbers. A startup that posts the checkpoint fails with that
  error exactly in the same case, and reaches normal operation only otherwise.
\<close>

theorem duplicate_switch_numbers_checked_at_startup:
  assumes "\<forall>switch \<in> set switches. hw_switch switch \<noteq> None"
  shows "(Switch_check_duplicate_switch_numbers switches = Inl AssertionError \<longleftrightarrow>
            (\<exists>i j. i < j \<and> j < length switches
                   \<and> switch_key (switches ! i) = switch_key (switches ! j)))
       \<and> (Switch_check_duplicate_switch_numbers switches \<noteq> Inl AssertionError \<longrightarrow>
            Switch_check_duplicate_switch_numbers switches = Inr ())
       \<and> (distinct (map platform switches) \<longrightarrow>
            Switch_check_duplicate_switch_numbers switches = Inr ())
       \<and> (''init_phase_4'', Check_duplicate_switch_numbers) \<in> set (device_class_init events)
       \<and> (machine_startup (device_class_init events) switches = Inl AssertionError \<longleftrightarrow>
            (\<exists>i j. i < j \<and> j < length switches
                   \<and> switch_key (switches ! i) = switch_key (switches ! j)))
       \<and> (machine_startup (device_class_init events) switches \<noteq> Inl AssertionError \<longrightarrow>
            machine_startup (device_class_init events) switches = Inr Normal_operation)"
proof -
  have c: "Switch_check_duplicate_switch_numbers switches =
     (if distinct (map switch_key switches) then Inr () else Inl AssertionError)"
    using check_duplicates_result[OF assms] .
  have m: "machine_startup (device_class_init events) switches =
     (if distinct (map switch_key switches) then Inr Normal_operation else Inl AssertionError)"
    by (simp add: machine_startup_def device_class_init_def post_event_checkpoint c
        bind_result_def)
  have r: "(''init_phase_4'', Check_duplicate_switch_numbers) \<in> set (device_class_init events)"
    by (simp add: device_class_init_def)
  show ?thesis
    unfolding shared_key_iff[symmetric] c m
    using r distinct_platforms_distinct_keys[of switches] by simp
qed


theorem duplicate_switch_numbers_checked_at_startup_witness:
  "hw_switch (example_switch ''s1'' ''virtual'' ''7'') \<noteq> None
   \<and> hw_switch (example_switch ''s2'' ''virtual'' ''7'') \<noteq> None
   \<and> hw_switch (example_switch ''s2'' ''p_roc'' ''7'') \<noteq> None
   \<and> switch_key (example_switch ''s1'' ''virtual'' ''7'')
       = switch_key (example_switch ''s2'' ''virtual'' ''7'')
   \<and> Switch_check_duplicate_switch_numbers
        [example_switch ''s1'' ''virtual'' ''7'', example_switch ''s2'' ''virtual'' ''7'']
      = Inl AssertionError
   \<and> machine_startup (device_class_init [])
        [example_switch ''s1'' ''virtual'' ''7'', example_switch ''s2'' ''virtual'' ''7'']
      = Inl AssertionError
   \<and> distinct (map platform
        [example_switch ''s1'' ''virtual'' ''7'', example_switch ''s2'' ''p_roc'' ''7''])
   \<and> Switch_check_duplicate_switch_numbers
        [example_switch ''s1'' ''virtual'' ''7'', example_switch ''s2'' ''p_roc'' ''7'']
      = Inr ()
   \<and> machine_startup (device_class_init [])
        [example_switch ''s1'' ''virtual'' ''7'', example_switch ''s2'' ''p_roc'' ''7'']
      = Inr Normal_operation"
proof -
  let ?same = "[example_switch ''s1'' ''virtual'' ''7'', example_switch ''s2'' ''virtual'' ''7'']"
  let ?apart = "[example_switch ''s1'' ''virtual'' ''7'', example_switch ''s2'' ''p_roc'' ''7'']"
  have handles: "\<forall>switch \<in> set ?same. hw_switch switch \<noteq> None"
    "\<forall>switch \<in> set ?apart. hw_switch switch \<noteq> None"
    by simp_all
  have key: "switch_key (example_switch ''s1'' ''virtual'' ''7'')
       = switch_key (example_switch ''s2'' ''virtual'' ''7'')"
    by (simp add: switch_key_def)
  have "(0::nat) < 1 \<and> 1 < length ?same \<and> switch_key (?same ! 0) = switch_key (?same ! 1)"
    using key by simp
  then have shared: "\<exists>i j. i < j \<and> j < length ?same
      \<and> switch_key (?same ! i) = switch_key (?same ! j)"
    by blast
  note same = duplicate_switch_numbers_checked_at_startup[OF handles(1), of "[]"]
  note apart = duplicate_switch_numbers_checked_at_startup[OF handles(2), of "[]"]
  have a1: "Switch_check_duplicate_switch_numbers ?same = Inl AssertionError"
    using same shared by blast
  have a2: "machine_startup (device_class_init []) ?same = Inl AssertionError"
    using same shared by blast
  have platforms: "distinct (map platform ?apart)" by simp
  have b1: "Switch_check_duplicate_switch_numbers ?apart = Inr ()"
    using apart platforms by blast
  have "\<not> (\<exists>i j. i < j \<and> j < length ?apart
      \<and> switch_key (?apart ! i) = switch_key (?apart ! j))"
    using apart b1 by auto
  then have b2: "machine_startup (device_class_init []) ?apart = Inr Normal_operation"
    using apart by blast
  show ?thesis
    using key a1 a2 platforms b1 b2 by simp
qed

end
